theory Spec2Isabelle
  imports Main "HOL-Library.Word"
begin

unbundle bit_operations_syntax

section \<open>Constants of main.c\<close>

type_synonym u8 = "8 word"
type_synonym u32 = "32 word"

text \<open>The object-like macros of main.c whose bodies are plain unsigned literals.\<close>

definition CPU_FREQENCY :: u32 where
  "CPU_FREQENCY = 48000000"

definition REF_FREQUENCY_DIV :: u32 where
  "REF_FREQUENCY_DIV = 8"

definition SYSTICK_PERIOD_US :: u32 where
  "SYSTICK_PERIOD_US = 10"

definition SYSTICK_FREQ :: u32 where
  "SYSTICK_FREQ = 1000000 div SYSTICK_PERIOD_US"

definition UART_BAUDRATE :: u32 where
  "UART_BAUDRATE = 9600"

definition SRAM_SIZE :: u32 where
  "SRAM_SIZE = 0x2000"

definition SRAM_VADDR :: u32 where
  "SRAM_VADDR = 0x20000000"

definition USER_OFFS :: u32 where
  "USER_OFFS = 0x400"

text \<open>
  The layout macros are defined without parentheses,
  \<^verbatim>\<open>#define USER_START SRAM_VADDR + USER_OFFS\<close>,
  \<^verbatim>\<open>#define USER_STACK SRAM_VADDR + SRAM_SIZE\<close>,
  \<^verbatim>\<open>#define USER_API_PTR_ADDR USER_START\<close>,
  \<^verbatim>\<open>#define USER_EXEC_START USER_START + 0x2U\<close>,
  \<^verbatim>\<open>#define USER_MAX_PROG_SIZE SRAM_SIZE - USER_OFFS\<close>,
  so each use is the token sequence pasted into the expression around it. A cast in front
  of the macro binds to \<^verbatim>\<open>SRAM_VADDR\<close> alone (a cast binds tighter than
  \<^verbatim>\<open>+\<close>), and the additions that follow are pointer arithmetic in the
  pointer's element size. \<open>ptr_add sz p n\<close> is the address of \<open>p + n\<close> for a pointer
  to elements of \<open>sz\<close> bytes (the compiler's extension gives \<^verbatim>\<open>void\<close> and
  function types the size 1).
\<close>

definition ptr_add :: "u32 \<Rightarrow> u32 \<Rightarrow> u32 \<Rightarrow> u32" where
  "ptr_add sz p n = p + sz * n"

definition sizeof_uint32_t :: u32 where
  "sizeof_uint32_t = 4"

text \<open>\<^verbatim>\<open>USER_START\<close> as an integer expression: the base of the loadable region.\<close>

definition USER_START :: u32 where
  "USER_START = SRAM_VADDR + USER_OFFS"

text \<open>\<^verbatim>\<open>USER_STACK\<close> as the operand of the \<^verbatim>\<open>mov sp, %0\<close> in run_code.\<close>

definition USER_STACK :: u32 where
  "USER_STACK = SRAM_VADDR + SRAM_SIZE"

text \<open>\<^verbatim>\<open>USER_MAX_PROG_SIZE\<close> as the third argument of uart_recv_buffer.\<close>

definition USER_MAX_PROG_SIZE :: u32 where
  "USER_MAX_PROG_SIZE = SRAM_SIZE - USER_OFFS"

text \<open>
  \<^verbatim>\<open>(void*) USER_START\<close> in receive_code is
  \<^verbatim>\<open>(void*) 0x20000000U + 0x00000400U\<close>.
\<close>

definition recv_buffer_addr :: u32 where
  "recv_buffer_addr = ptr_add 1 SRAM_VADDR USER_OFFS"

text \<open>
  \<^verbatim>\<open>(uint32_t*) USER_API_PTR_ADDR\<close> in run_code is
  \<^verbatim>\<open>(uint32_t*) 0x20000000U + 0x00000400U\<close>: element size 4.
\<close>

definition api_ptr_addr :: u32 where
  "api_ptr_addr = ptr_add sizeof_uint32_t SRAM_VADDR USER_OFFS"

text \<open>
  \<^verbatim>\<open>(void (*)(void)) USER_EXEC_START\<close> in run_code is
  \<^verbatim>\<open>(void (*)(void)) 0x20000000U + 0x00000400U + 0x2U\<close>.
\<close>

definition exec_start_addr :: u32 where
  "exec_start_addr = ptr_add 1 (ptr_add 1 SRAM_VADDR USER_OFFS) 2"

section \<open>Spin-waits\<close>

text \<open>
  \<^verbatim>\<open>while (c) continue;\<close> over a volatile condition: \<open>c n\<close> is the condition's
  value at the \<open>n\<close>-th evaluation. The result is the index of the evaluation that found
  it false and ended the loop; a condition that stays true gives \<open>None\<close>.
\<close>

partial_function (option) spin_while :: "(nat \<Rightarrow> bool) \<Rightarrow> nat \<Rightarrow> nat option" where
  "spin_while c n = (if c n then spin_while c (Suc n) else Some n)"

section \<open>Clock configuration\<close>

text \<open>
  Modelled from the spec: inc/modregs.h and inc/rcc.h (SET_BIT, CHECK_BIT, the RCC register
  and field macros) are not among the sources. \<^verbatim>\<open>CHECK_BIT(reg, b)\<close> is taken as
  true exactly when bit \<open>b\<close> of \<open>reg\<close> is set, and a ready flag that is set as "ready".
  The hardware is what the polls observe: \<open>hserdy hw n\<close> tells whether HSERDY is set at
  the \<open>n\<close>-th read of RCC_CR after HSEON was written, \<open>pllrdy hw n\<close> the same for PLLRDY
  after PLLON, and \<open>sws hw n\<close> is the clock source the SWS field reports at the \<open>n\<close>-th
  read after SW was written.
\<close>

datatype sysclk = HSI | HSE | PLL | HSI48

record rcc_hw =
  hserdy :: "nat \<Rightarrow> bool"
  pllrdy :: "nat \<Rightarrow> bool"
  sws :: "nat \<Rightarrow> sysclk"

text \<open>What board_clocking_init does to the RCC, in program order; a poll carries the value read.\<close>

datatype rcc_event =
    Set_HSEON
  | Check_HSERDY bool
  | Set_PREDIV nat
  | Set_PLLSRC_HSE_PREDIV
  | Set_PLLMUL nat
  | Set_PLLON
  | Check_PLLRDY bool
  | Set_HPRE_NOT_DIV
  | Set_SW_PLL
  | Get_SWS sysclk
  | Set_PPRE_NOT_DIV

definition polls :: "(nat \<Rightarrow> 'a) \<Rightarrow> nat \<Rightarrow> 'a list" where
  "polls f k = map f [0..<Suc k]"

definition board_clocking_init :: "rcc_hw \<Rightarrow> rcc_event list option" where
  "board_clocking_init hw =
     (case spin_while (\<lambda>n. hserdy hw n) 0 of
        None \<Rightarrow> None
      | Some k1 \<Rightarrow>
          (case spin_while (\<lambda>n. pllrdy hw n) 0 of
             None \<Rightarrow> None
           | Some k2 \<Rightarrow>
               (case spin_while (\<lambda>n. sws hw n \<noteq> PLL) 0 of
                  None \<Rightarrow> None
                | Some k3 \<Rightarrow>
                    Some ([Set_HSEON] @ polls (\<lambda>n. Check_HSERDY (hserdy hw n)) k1
                          @ [Set_PREDIV 2, Set_PLLSRC_HSE_PREDIV, Set_PLLMUL 12, Set_PLLON]
                          @ polls (\<lambda>n. Check_PLLRDY (pllrdy hw n)) k2
                          @ [Set_HPRE_NOT_DIV, Set_SW_PLL]
                          @ polls (\<lambda>n. Get_SWS (sws hw n)) k3
                          @ [Set_PPRE_NOT_DIV]))))"

text \<open>A board whose oscillator and PLL have not become ready when first polled.\<close>

definition cold_hw :: rcc_hw where
  "cold_hw = \<lparr>hserdy = (\<lambda>n. False), pllrdy = (\<lambda>n. False), sws = (\<lambda>n. PLL)\<rparr>"

section \<open>SysTick configuration\<close>

text \<open>
  Modelled from the spec: inc/systick.h is not among the sources. The calibration register
  is read through its field macros: \<open>NOREF\<close> and \<open>SKEW\<close> are the values that
  \<^verbatim>\<open>SYSTICK_GET_NOREF()\<close> and \<^verbatim>\<open>SYSTICK_GET_SKEW()\<close> return (zero
  when the bit is clear), and \<open>TENMS\<close> is the platform's calibration value. The register
  is read-only and constant, so two reads of a field agree.
\<close>

record systick_calib =
  NOREF :: u32
  SKEW :: u32
  TENMS :: u32

record systick_regs =
  RVR :: u32
  CVR :: u32
  src_ref :: bool
  exc_enabled :: bool
  enabled :: bool

text \<open>The locals of systick_init after the first \<^verbatim>\<open>if\<close>.\<close>

definition ref_freq_avail :: "systick_calib \<Rightarrow> bool" where
  "ref_freq_avail cal = (NOREF cal = 0)"

definition systick_src_freq :: "systick_calib \<Rightarrow> u32" where
  "systick_src_freq cal =
     (if NOREF cal = 0 then CPU_FREQENCY div REF_FREQUENCY_DIV else CPU_FREQENCY)"

text \<open>
  The local \<^verbatim>\<open>reload_value\<close>. In the exact branch the source assigns
  \<^verbatim>\<open>calib_value = SYSTICK_GET_SKEW()\<close>.
\<close>

definition reload_value :: "systick_calib \<Rightarrow> u32 \<Rightarrow> u32" where
  "reload_value cal period_us =
     (if SKEW cal = 0
      then (let calib_value = SKEW cal
            in if ref_freq_avail cal then calib_value * period_us
               else calib_value * period_us * REF_FREQUENCY_DIV)
      else period_us * (systick_src_freq cal div 1000000))"

definition systick_init :: "systick_calib \<Rightarrow> u32 \<Rightarrow> systick_regs" where
  "systick_init cal period_us =
     \<lparr>RVR = reload_value cal period_us - 1, CVR = 0,
      src_ref = ref_freq_avail cal, exc_enabled = True, enabled = True\<rparr>"

text \<open>
  The reload value as the specification words it, for comparison: the calibration value
  times the period, times the reference divisor when no reference clock is available, in
  the exact branch; the period times the source frequency in MHz otherwise.
\<close>

definition spec_reload_value :: "systick_calib \<Rightarrow> u32 \<Rightarrow> u32" where
  "spec_reload_value cal period_us =
     (if SKEW cal = 0
      then (if NOREF cal = 0 then TENMS cal * period_us
            else TENMS cal * period_us * REF_FREQUENCY_DIV)
      else period_us * ((if NOREF cal = 0 then CPU_FREQENCY div 8 else CPU_FREQENCY) div 1000000))"

text \<open>
  An exact calibration with the value the source's note gives (TENMS = 6000) and a
  reference clock present.
\<close>

definition exact_calib :: systick_calib where
  "exact_calib = \<lparr>NOREF = 0, SKEW = 0, TENMS = 6000\<rparr>"

section \<open>SysTick interrupt handler\<close>

text \<open>
  The two function-local statics of systick_handler and the output pin it drives
  (\<open>pin\<close>: the level of PC8 after GPIO_BSRR_SET_PIN / GPIO_BRR_RESET_PIN).
  \<^verbatim>\<open>unsigned\<close> is 32 bits wide on the target.
\<close>

record heartbeat =
  handler_ticks :: u32
  led_is_on :: bool
  pin :: bool

definition heartbeat_init :: heartbeat where
  "heartbeat_init = \<lparr>handler_ticks = 0, led_is_on = False, pin = False\<rparr>"

definition systick_handler :: "heartbeat \<Rightarrow> heartbeat" where
  "systick_handler s =
     (let t = handler_ticks s + 1
      in if t mod SYSTICK_FREQ = 0
         then (if led_is_on s = False
               then \<lparr>handler_ticks = t, led_is_on = True, pin = True\<rparr>
               else \<lparr>handler_ticks = t, led_is_on = False, pin = False\<rparr>)
         else s\<lparr>handler_ticks := t\<rparr>)"

text \<open>The state after \<open>n\<close> tick interrupts, and whether the \<open>n\<close>-th one toggled the LED.\<close>

definition after_ticks :: "nat \<Rightarrow> heartbeat" where
  "after_ticks n = (systick_handler ^^ n) heartbeat_init"

definition toggles_at :: "nat \<Rightarrow> bool" where
  "toggles_at n = (led_is_on (after_ticks n) \<noteq> led_is_on (after_ticks (n - 1)))"

section \<open>Memory and the execution handoff\<close>

type_synonym memory = "u32 \<Rightarrow> u8"

text \<open>A 32-bit load on the little-endian target.\<close>

definition read32 :: "memory \<Rightarrow> u32 \<Rightarrow> u32" where
  "read32 m a =
     ucast (m a) OR push_bit 8 (ucast (m (a + 1)))
       OR push_bit 16 (ucast (m (a + 2))) OR push_bit 24 (ucast (m (a + 3)))"

fun write_bytes :: "memory \<Rightarrow> u32 \<Rightarrow> u8 list \<Rightarrow> memory" where
  "write_bytes m a [] = m"
| "write_bytes m a (b # bs) = write_bytes (m(a := b)) (a + 1) bs"

fun read_bytes :: "memory \<Rightarrow> u32 \<Rightarrow> nat \<Rightarrow> u8 list" where
  "read_bytes m a 0 = []"
| "read_bytes m a (Suc n) = m a # read_bytes m (a + 1) n"

record cpu =
  mem :: memory
  sp :: u32
  pc :: u32

text \<open>
  run_code up to and including the call of the entry point. \<open>api_host\<close> is the object
  representation of \<^verbatim>\<open>API_host\<close> (struct API is declared in api.h, which is not
  among the sources); \<^verbatim>\<open>*api_guest = API_host\<close> copies these bytes.
\<close>

definition handoff :: "u8 list \<Rightarrow> memory \<Rightarrow> cpu" where
  "handoff api_host m =
     (let api_guest = read32 m api_ptr_addr
      in \<lparr>mem = write_bytes m api_guest api_host, sp = USER_STACK, pc = exec_start_addr\<rparr>)"

text \<open>\<^verbatim>\<open>while (1) continue;\<close>\<close>

partial_function (option) idle_loop :: "cpu \<Rightarrow> cpu option" where
  "idle_loop s = idle_loop s"

text \<open>
  run_code as its caller sees it: \<open>guest\<close> is the loaded routine (\<open>None\<close> when it does
  not return); a result \<open>Some s\<close> would be a return to the caller.
\<close>

definition run_code :: "(cpu \<Rightarrow> cpu option) \<Rightarrow> u8 list \<Rightarrow> memory \<Rightarrow> cpu option" where
  "run_code guest api_host m =
     (case guest (handoff api_host m) of
        None \<Rightarrow> None
      | Some s \<Rightarrow> idle_loop s)"

section \<open>Serial link and code reception\<close>

datatype gpio_port = GPIOA | GPIOB | GPIOC

datatype gpio_af = GPIO_AF0 | GPIO_AF1

record uart_conf =
  uartno :: u32
  baudrate :: u32
  frequency :: u32
  tx_port :: gpio_port
  tx_pin :: u32
  rx_port :: gpio_port
  rx_pin :: u32
  af_tx :: gpio_af
  af_rx :: gpio_af

text \<open>The calls into the serial driver (uart.h), with their arguments; a poll carries its result.\<close>

datatype uart_op =
    Uart_setup uart_conf
  | Uart_transmit_enable
  | Uart_transmit_disable
  | Uart_receive_enable
  | Uart_receive_disable
  | Uart_trns_buffer u32 u32
  | Uart_recv_buffer u32 u32
  | Is_trns_complete bool
  | Is_recv_complete bool

text \<open>
  Modelled from the spec: the serial driver (uart.h and its implementation) is not among
  the sources; it is the external collaborator of the specification's section 4.3. A driver
  is given by the status each call returns, by the value of is_recv_complete() at the
  \<open>n\<close>-th poll after a reception was started, and by the bytes the peer sends (\<open>wire\<close>).
  A started reception of \<open>len\<close> bytes has stored the first \<open>len\<close> bytes of the wire at the
  buffer once it is complete; a refused one stores nothing.
\<close>

record uart_drv =
  setup_status :: "uart_conf \<Rightarrow> int"
  receive_enable_status :: int
  recv_buffer_status :: "u32 \<Rightarrow> u32 \<Rightarrow> int"
  recv_complete :: "nat \<Rightarrow> bool"
  wire :: "u8 list"

definition the_uart_conf :: uart_conf where
  "the_uart_conf =
     \<lparr>uartno = 1, baudrate = UART_BAUDRATE, frequency = CPU_FREQENCY,
      tx_port = GPIOA, tx_pin = 9, rx_port = GPIOA, rx_pin = 10,
      af_tx = GPIO_AF1, af_rx = GPIO_AF1\<rparr>"

definition uart_init :: "uart_drv \<Rightarrow> int \<times> uart_op list" where
  "uart_init drv =
     (let err = setup_status drv the_uart_conf
      in if err < 0 then (err, [Uart_setup the_uart_conf])
         else (let err = receive_enable_status drv
               in if err < 0 then (err, [Uart_setup the_uart_conf, Uart_receive_enable])
                  else (0, [Uart_setup the_uart_conf, Uart_receive_enable])))"

text \<open>run_tests: every statement but the return is commented out.\<close>

definition run_tests :: "uart_drv \<Rightarrow> int \<times> uart_op list" where
  "run_tests drv = (0, [])"

text \<open>
  The body of receive_code with the buffer and the length of its uart_recv_buffer call as
  arguments (the source keeps a second, commented-out call with the length 4).
\<close>

definition receive_into ::
  "uart_drv \<Rightarrow> u32 \<Rightarrow> u32 \<Rightarrow> memory \<Rightarrow> (int \<times> uart_op list \<times> memory) option" where
  "receive_into drv buf len m =
     (let err = recv_buffer_status drv buf len
      in if err < 0 then Some (err, [Uart_recv_buffer buf len], m)
         else (case spin_while (\<lambda>n. recv_complete drv n = False) 0 of
                 None \<Rightarrow> None
               | Some k \<Rightarrow>
                   Some (0,
                         Uart_recv_buffer buf len
                           # polls (\<lambda>n. Is_recv_complete (recv_complete drv n)) k,
                         write_bytes m buf (take (unat len) (wire drv)))))"

definition receive_code :: "uart_drv \<Rightarrow> memory \<Rightarrow> (int \<times> uart_op list \<times> memory) option" where
  "receive_code drv m = receive_into drv recv_buffer_addr USER_MAX_PROG_SIZE m"

text \<open>Driver calls on the transmit side, receive initiations, and the calls the boot makes.\<close>

fun is_transmit :: "uart_op \<Rightarrow> bool" where
  "is_transmit Uart_transmit_enable = True"
| "is_transmit Uart_transmit_disable = True"
| "is_transmit (Uart_trns_buffer b l) = True"
| "is_transmit (Is_trns_complete r) = True"
| "is_transmit op = False"

fun is_recv_buffer :: "uart_op \<Rightarrow> bool" where
  "is_recv_buffer (Uart_recv_buffer b l) = True"
| "is_recv_buffer op = False"

fun boot_op :: "uart_op \<Rightarrow> bool" where
  "boot_op (Uart_setup c) = (c = the_uart_conf)"
| "boot_op Uart_receive_enable = True"
| "boot_op (Uart_recv_buffer b l) = (b = recv_buffer_addr \<and> l = USER_MAX_PROG_SIZE)"
| "boot_op (Is_recv_complete r) = True"
| "boot_op op = False"

section \<open>The boot sequence\<close>

datatype call =
    Board_clocking_init
  | Board_gpio_init
  | Systick_init
  | Uart_init
  | Run_tests
  | Receive_code
  | Run_code

text \<open>
  The board as main leaves it: the functions it called, the RCC accesses, the SysTick
  registers, the driver calls, and the working memory.
\<close>

record board =
  calls :: "call list"
  rcc_log :: "rcc_event list"
  systick :: systick_regs
  uart_ops :: "uart_op list"
  ram :: memory

text \<open>
  How main ends: it returns a status, or it has passed control to the loaded program
  (with the machine state of that moment) and does not return.
\<close>

datatype ending = Returned int | Handed_over cpu

definition main ::
  "rcc_hw \<Rightarrow> systick_calib \<Rightarrow> uart_drv \<Rightarrow> u8 list \<Rightarrow> memory \<Rightarrow> (ending \<times> board) option" where
  "main hw cal drv api_host m =
     (case board_clocking_init hw of
        None \<Rightarrow> None
      | Some clk \<Rightarrow>
          (let b0 = \<lparr>calls = [Board_clocking_init, Board_gpio_init, Systick_init],
                     rcc_log = clk, systick = systick_init cal SYSTICK_PERIOD_US,
                     uart_ops = [], ram = m\<rparr>;
               err1 = fst (uart_init drv);
               b1 = b0\<lparr>calls := calls b0 @ [Uart_init], uart_ops := snd (uart_init drv)\<rparr>
           in if err1 < 0 then Some (Returned err1, b1)
              else (let err2 = fst (run_tests drv);
                        b2 = b1\<lparr>calls := calls b1 @ [Run_tests],
                                uart_ops := uart_ops b1 @ snd (run_tests drv)\<rparr>
                    in if err2 < 0 then Some (Returned err2, b2)
                       else (case receive_code drv (ram b2) of
                               None \<Rightarrow> None
                             | Some (err3, ops3, m3) \<Rightarrow>
                                 (let b3 = b2\<lparr>calls := calls b2 @ [Receive_code],
                                             uart_ops := uart_ops b2 @ ops3, ram := m3\<rparr>
                                  in if err3 < 0 then Some (Returned err3, b3)
                                     else (let h = handoff api_host m3
                                           in Some (Handed_over h,
                                                    b3\<lparr>calls := calls b3 @ [Run_code],
                                                       ram := mem h\<rparr>)))))))"

section \<open>Concrete inputs\<close>

text \<open>
  A working memory whose word at the base of the loadable region (0x20000400) holds the
  address 0x20001800, and whose word at 0x20001000 holds the address 0x20001900; every
  other byte is zero.
\<close>

definition split_image :: memory where
  "split_image =
     write_bytes (write_bytes (\<lambda>a. 0) 0x20000400 [0x00, 0x18, 0x00, 0x20])
       0x20001000 [0x00, 0x19, 0x00, 0x20]"

text \<open>A four-byte service table.\<close>

definition sample_api :: "u8 list" where
  "sample_api = [0xDE, 0xAD, 0xBE, 0xEF]"

text \<open>A working memory of zero bytes.\<close>

definition zero_mem :: memory where
  "zero_mem = (\<lambda>a. 0)"

text \<open>
  A driver that accepts every call, reports the reception complete at the third poll and
  receives three bytes; and three drivers that refuse one call each.
\<close>

definition good_drv :: uart_drv where
  "good_drv =
     \<lparr>setup_status = (\<lambda>c. 0), receive_enable_status = 0, recv_buffer_status = (\<lambda>b l. 0),
      recv_complete = (\<lambda>n. 2 \<le> n), wire = [0x11, 0x22, 0x33]\<rparr>"

definition drv_setup_fails :: uart_drv where
  "drv_setup_fails = good_drv\<lparr>setup_status := (\<lambda>c. - 1)\<rparr>"

definition drv_enable_fails :: uart_drv where
  "drv_enable_fails = good_drv\<lparr>receive_enable_status := - 2\<rparr>"

definition drv_recv_fails :: uart_drv where
  "drv_recv_fails = good_drv\<lparr>recv_buffer_status := (\<lambda>b l. - 3)\<rparr>"

section \<open>Properties\<close>

subsection \<open>Spin-waits\<close>

lemma spin_while_exit:
  assumes a: "spin_while c n = Some k"
  shows "\<not> c k \<and> n \<le> k"
proof (rule spin_while.raw_induct[where P = "\<lambda>c n k. \<not> c k \<and> n \<le> k", OF _ a])
  fix rec :: "(nat \<Rightarrow> bool) \<Rightarrow> nat \<Rightarrow> nat option" and c n k
  assume IH: "\<And>c n k. rec c n = Some k \<Longrightarrow> \<not> c k \<and> n \<le> k"
    and step: "(if c n then rec c (Suc n) else Some n) = Some k"
  show "\<not> c k \<and> n \<le> k"
  proof (cases "c n")
    case True
    with step have "rec c (Suc n) = Some k" by simp
    from IH [OF this] show ?thesis by simp
  next
    case False
    with step show ?thesis by simp
  qed
qed

lemma spin_while_before:
  assumes a: "spin_while c n = Some k"
  shows "\<forall>j. n \<le> j \<and> j < k \<longrightarrow> c j"
proof (rule spin_while.raw_induct
    [where P = "\<lambda>c n k. \<forall>j. n \<le> j \<and> j < k \<longrightarrow> c j", OF _ a])
  fix rec :: "(nat \<Rightarrow> bool) \<Rightarrow> nat \<Rightarrow> nat option" and c n k
  assume IH: "\<And>c n k. rec c n = Some k \<Longrightarrow> \<forall>j. n \<le> j \<and> j < k \<longrightarrow> c j"
    and step: "(if c n then rec c (Suc n) else Some n) = Some k"
  show "\<forall>j. n \<le> j \<and> j < k \<longrightarrow> c j"
  proof (cases "c n")
    case True
    with step have "rec c (Suc n) = Some k" by simp
    from IH [OF this] True show ?thesis
      by (metis Suc_leI le_neq_implies_less)
  next
    case False
    with step show ?thesis by auto
  qed
qed

lemma spin_while_first:
  "\<not> c n \<Longrightarrow> spin_while c n = Some n"
  by (subst spin_while.simps) simp

lemma spin_while_next:
  "c n \<Longrightarrow> spin_while c n = spin_while c (Suc n)"
  by (subst spin_while.simps) simp

lemma spin_while_stops:
  "\<not> c (n + d) \<Longrightarrow> \<exists>k. spin_while c n = Some k"
proof (induction d arbitrary: n)
  case 0
  then show ?case by (simp add: spin_while_first)
next
  case (Suc d)
  from Suc.prems have "\<not> c (Suc n + d)" by simp
  from Suc.IH [OF this] show ?case by (subst spin_while.simps) simp
qed

lemma spin_while_forever:
  assumes "\<forall>j. n \<le> j \<longrightarrow> c j"
  shows "spin_while c n = None"
proof (cases "spin_while c n")
  case None
  then show ?thesis .
next
  case (Some k)
  from spin_while_exit [OF Some] assms show ?thesis by blast
qed

subsection \<open>Clock configuration\<close>

text \<open>
  Whenever board_clocking_init returns, its first wait ended on a read that found HSERDY
  clear, its second on one that found PLLRDY clear, and its third on one that found the
  PLL reported as the system clock.
\<close>

lemma board_clocking_init_exits:
  assumes "board_clocking_init hw = Some tr"
  shows "\<exists>k1 k2 k3.
           \<not> hserdy hw k1 \<and> \<not> pllrdy hw k2 \<and> sws hw k3 = PLL \<and>
           tr = [Set_HSEON] @ polls (\<lambda>n. Check_HSERDY (hserdy hw n)) k1
                @ [Set_PREDIV 2, Set_PLLSRC_HSE_PREDIV, Set_PLLMUL 12, Set_PLLON]
                @ polls (\<lambda>n. Check_PLLRDY (pllrdy hw n)) k2
                @ [Set_HPRE_NOT_DIV, Set_SW_PLL]
                @ polls (\<lambda>n. Get_SWS (sws hw n)) k3
                @ [Set_PPRE_NOT_DIV]"
proof -
  from assms obtain k1 k2 k3 where
    w1: "spin_while (\<lambda>n. hserdy hw n) 0 = Some k1" and
    w2: "spin_while (\<lambda>n. pllrdy hw n) 0 = Some k2" and
    w3: "spin_while (\<lambda>n. sws hw n \<noteq> PLL) 0 = Some k3" and
    tr: "tr = [Set_HSEON] @ polls (\<lambda>n. Check_HSERDY (hserdy hw n)) k1
                @ [Set_PREDIV 2, Set_PLLSRC_HSE_PREDIV, Set_PLLMUL 12, Set_PLLON]
                @ polls (\<lambda>n. Check_PLLRDY (pllrdy hw n)) k2
                @ [Set_HPRE_NOT_DIV, Set_SW_PLL]
                @ polls (\<lambda>n. Get_SWS (sws hw n)) k3
                @ [Set_PPRE_NOT_DIV]"
    by (auto simp: board_clocking_init_def split: option.splits)
  from spin_while_exit [OF w1] spin_while_exit [OF w2] spin_while_exit [OF w3] tr
  show ?thesis by blast
qed

text \<open>An oscillator that has become ready and stays ready keeps the first wait spinning.\<close>

lemma board_clocking_init_hangs_when_ready:
  "(\<forall>n. hserdy hw n) \<Longrightarrow> board_clocking_init hw = None"
  by (simp add: board_clocking_init_def spin_while_forever)

lemma cold_hw_trace:
  "board_clocking_init cold_hw =
     Some [Set_HSEON, Check_HSERDY False,
           Set_PREDIV 2, Set_PLLSRC_HSE_PREDIV, Set_PLLMUL 12,
           Set_PLLON, Check_PLLRDY False,
           Set_HPRE_NOT_DIV, Set_SW_PLL, Get_SWS PLL, Set_PPRE_NOT_DIV]"
  by (simp add: board_clocking_init_def cold_hw_def spin_while_first polls_def)

text \<open>
  C1 (fails on the code): on a board whose HSERDY and PLLRDY flags are still clear when
  first polled, board_clocking_init returns. Its wait after HSEON ends on the first read,
  which found HSERDY clear, and the pre-divider is programmed next; its wait after PLLON
  ends on the first read, which found PLLRDY clear, and the bus prescaler is programmed
  next. Only the third wait ends on the awaited condition (SWS reports the PLL).
\<close>

theorem hse_wait_ends_unready:
  "\<not> hserdy cold_hw 0 \<and> \<not> pllrdy cold_hw 0 \<and>
   board_clocking_init cold_hw =
     Some [Set_HSEON, Check_HSERDY False,
           Set_PREDIV 2, Set_PLLSRC_HSE_PREDIV, Set_PLLMUL 12,
           Set_PLLON, Check_PLLRDY False,
           Set_HPRE_NOT_DIV, Set_SW_PLL, Get_SWS PLL, Set_PPRE_NOT_DIV]"
  by (simp add: board_clocking_init_def cold_hw_def spin_while_first polls_def)

subsection \<open>SysTick reload value\<close>

lemma reload_value_exact: "SKEW cal = 0 \<Longrightarrow> reload_value cal p = 0"
  by (simp add: reload_value_def)

lemma reload_value_inexact:
  "SKEW cal \<noteq> 0 \<Longrightarrow> reload_value cal p = spec_reload_value cal p"
  by (simp add: reload_value_def spec_reload_value_def systick_src_freq_def
      REF_FREQUENCY_DIV_def)

text \<open>
  C2 (fails on the code): with the calibration the source's note describes (exact,
  TENMS = 6000, reference clock present) and the period of 10 microseconds that main
  passes, the specification's formula gives the reload value 6000 * 10 = 60000, while
  systick_init computes 0, since it multiplies the period by the SKEW field it has just
  found to be zero, and programs the reload register with 0 - 1 = 0xFFFFFFFF.
\<close>

theorem reload_ignores_calibration:
  "reload_value exact_calib SYSTICK_PERIOD_US = 0 \<and>
   spec_reload_value exact_calib SYSTICK_PERIOD_US = 60000 \<and>
   RVR (systick_init exact_calib SYSTICK_PERIOD_US) = 0xFFFFFFFF"
  by (simp add: reload_value_def spec_reload_value_def systick_init_def exact_calib_def
      SYSTICK_PERIOD_US_def)

subsection \<open>Memory layout and the execution handoff\<close>

lemma layout_addresses:
  "USER_START = 0x20000400" "api_ptr_addr = 0x20001000" "recv_buffer_addr = 0x20000400"
  "exec_start_addr = 0x20000402" "USER_STACK = 0x20002000" "USER_MAX_PROG_SIZE = 0x1C00"
  by (simp_all add: USER_START_def api_ptr_addr_def ptr_add_def SRAM_VADDR_def USER_OFFS_def
      sizeof_uint32_t_def recv_buffer_addr_def exec_start_addr_def USER_STACK_def SRAM_SIZE_def
      USER_MAX_PROG_SIZE_def)

text \<open>
  C3 (fails on the code): the entry point is the loadable region's base plus 2, and 2 is
  less than the four bytes of the machine word at the base, so the entry point is the
  third byte of that word.
\<close>

theorem entry_inside_pointer_word:
  "USER_START = 0x20000400 \<and> exec_start_addr = 0x20000402 \<and>
   exec_start_addr - USER_START = 2 \<and>
   exec_start_addr - USER_START < sizeof_uint32_t"
  by (simp add: USER_START_def exec_start_addr_def ptr_add_def SRAM_VADDR_def USER_OFFS_def
      sizeof_uint32_t_def)

lemma idle_loop_never: "idle_loop s = None"
proof (cases "idle_loop s")
  case None
  then show ?thesis .
next
  case (Some t)
  have False
    by (rule idle_loop.raw_induct [where P = "\<lambda>s t. False", OF _ Some])
  then show ?thesis ..
qed

text \<open>run_code does not return, whatever the loaded routine does.\<close>

lemma run_code_never_returns: "run_code guest api_host m = None"
  by (simp add: run_code_def idle_loop_never split: option.splits)

lemma write_bytes_other:
  "(\<And>i. i < length bs \<Longrightarrow> a + of_nat i \<noteq> x) \<Longrightarrow> write_bytes m a bs x = m x"
proof (induction bs arbitrary: m a)
  case Nil
  then show ?case by simp
next
  case (Cons b bs)
  have "write_bytes (m(a := b)) (a + 1) bs x = (m(a := b)) x"
  proof (rule Cons.IH)
    fix i assume "i < length bs"
    then have "a + of_nat (Suc i) \<noteq> x" by (intro Cons.prems) simp
    then show "a + 1 + of_nat i \<noteq> x" by (simp add: add.assoc)
  qed
  moreover have "a \<noteq> x" using Cons.prems [of 0] by simp
  ultimately show ?case by simp
qed

lemma write_bytes_fidelity:
  "length bs \<le> 2 ^ 32 \<Longrightarrow> read_bytes (write_bytes m a bs) a (length bs) = bs"
proof (induction bs arbitrary: m a)
  case Nil
  then show ?case by simp
next
  case (Cons b bs)
  have "write_bytes (m(a := b)) (a + 1) bs a = (m(a := b)) a"
  proof (rule write_bytes_other)
    fix i assume "i < length bs"
    with Cons.prems have "0 < Suc i" "Suc i < 2 ^ LENGTH(32)" by simp_all
    then have "(of_nat (Suc i) :: u32) \<noteq> 0" by (rule of_nat_neq_0)
    then show "a + 1 + of_nat i \<noteq> a" by (simp add: add.assoc)
  qed
  then have h: "write_bytes (m(a := b)) (a + 1) bs a = b" by simp
  from Cons.prems have "length bs \<le> 2 ^ 32" by simp
  then have t: "read_bytes (write_bytes (m(a := b)) (a + 1) bs) (a + 1) (length bs) = bs"
    by (rule Cons.IH)
  show ?case by (simp add: h t)
qed

text \<open>
  The copy is exact at the address run_code reads, the stack pointer is the end of the
  working memory and the entry point is fixed.
\<close>

lemma handoff_copy:
  "length api_host \<le> 2 ^ 32 \<Longrightarrow>
   read_bytes (mem (handoff api_host m)) (read32 m api_ptr_addr) (length api_host) = api_host"
  by (simp add: handoff_def write_bytes_fidelity)

lemma handoff_registers:
  "sp (handoff api_host m) = 0x20002000 \<and> pc (handoff api_host m) = 0x20000402"
  by (simp add: handoff_def layout_addresses)

lemma split_image_base_word: "read32 split_image USER_START = 0x20001800"
  by (simp add: layout_addresses read32_def split_image_def)

lemma split_image_read_word: "read32 split_image api_ptr_addr = 0x20001900"
  by (simp add: layout_addresses read32_def split_image_def)

lemma split_image_handoff:
  "mem (handoff sample_api split_image) = write_bytes split_image 0x20001900 sample_api"
  by (simp add: handoff_def split_image_read_word)

text \<open>
  C4 (fails on the code): run_code reads the address for the service table from the word
  at 0x20001000, not from the word at the base of the loadable region (0x20000400). On a
  memory where the word at the base holds 0x20001800 and the word at 0x20001000 holds
  0x20001900, the bytes at 0x20001800 are left as they were (zero) and the service table
  is copied to 0x20001900. The stack pointer and the entry point are as configured.
\<close>

theorem handoff_reads_other_word:
  "read32 split_image USER_START = 0x20001800 \<and>
   api_ptr_addr = 0x20001000 \<and>
   read32 split_image api_ptr_addr = 0x20001900 \<and>
   read_bytes (mem (handoff sample_api split_image)) 0x20001800 (length sample_api)
     = [0, 0, 0, 0] \<and>
   read_bytes (mem (handoff sample_api split_image)) 0x20001900 (length sample_api)
     = sample_api \<and>
   sp (handoff sample_api split_image) = 0x20002000 \<and>
   pc (handoff sample_api split_image) = 0x20000402"
proof -
  have "read_bytes (mem (handoff sample_api split_image)) 0x20001800 (length sample_api)
          = [0, 0, 0, 0]"
    unfolding split_image_handoff by (simp add: sample_api_def split_image_def)
  moreover have "read_bytes (mem (handoff sample_api split_image)) 0x20001900
          (length sample_api) = sample_api"
    unfolding split_image_handoff by (simp add: sample_api_def split_image_def)
  moreover have "sp (handoff sample_api split_image) = 0x20002000"
    by (simp add: handoff_def layout_addresses)
  moreover have "pc (handoff sample_api split_image) = 0x20000402"
    by (simp add: handoff_def layout_addresses)
  ultimately show ?thesis
    using split_image_base_word split_image_read_word layout_addresses(2) by simp
qed

subsection \<open>Heartbeat\<close>

lemma systick_handler_ticks: "handler_ticks (systick_handler s) = handler_ticks s + 1"
  by (simp add: systick_handler_def Let_def)

lemma systick_handler_led:
  "led_is_on (systick_handler s) =
     (if (handler_ticks s + 1) mod SYSTICK_FREQ = 0 then \<not> led_is_on s else led_is_on s)"
  by (simp add: systick_handler_def Let_def)

lemma systick_handler_pin:
  "pin s = led_is_on s \<Longrightarrow> pin (systick_handler s) = led_is_on (systick_handler s)"
  by (simp add: systick_handler_def Let_def)

lemma after_ticks_Suc: "after_ticks (Suc n) = systick_handler (after_ticks n)"
  by (simp add: after_ticks_def)

lemma after_ticks_0: "after_ticks 0 = heartbeat_init"
  by (simp add: after_ticks_def)

text \<open>The counter is the number of invocations modulo \<open>2 ^ 32\<close>.\<close>

lemma ticks_after: "handler_ticks (after_ticks n) = of_nat n"
  by (induction n)
    (simp_all add: after_ticks_0 after_ticks_Suc systick_handler_ticks heartbeat_init_def)

lemma pin_after: "pin (after_ticks n) = led_is_on (after_ticks n)"
  by (induction n)
    (simp_all add: after_ticks_0 after_ticks_Suc systick_handler_pin heartbeat_init_def)

lemma SYSTICK_FREQ_value: "SYSTICK_FREQ = 100000"
  by (simp add: SYSTICK_FREQ_def SYSTICK_PERIOD_US_def)

lemma counter_multiple:
  "((of_nat k :: u32) mod SYSTICK_FREQ = 0) = (100000 dvd k mod 2 ^ 32)"
proof -
  have "((of_nat k :: u32) mod 100000 = 0) = (unat ((of_nat k :: u32) mod 100000) = 0)"
    by (simp add: unat_eq_0)
  also have "\<dots> = ((k mod 2 ^ 32) mod 100000 = 0)"
    by (simp add: unat_mod unat_of_nat)
  finally show ?thesis by (simp add: SYSTICK_FREQ_value dvd_eq_mod_eq_0)
qed

lemma led_after_Suc:
  "led_is_on (after_ticks (Suc n)) =
     (if 100000 dvd Suc n mod 2 ^ 32 then \<not> led_is_on (after_ticks n)
      else led_is_on (after_ticks n))"
proof -
  have "handler_ticks (after_ticks n) + 1 = (of_nat (Suc n) :: u32)"
    by (simp add: ticks_after)
  then show ?thesis
    by (simp only: after_ticks_Suc systick_handler_led counter_multiple)
qed

lemma toggles_at_iff: "toggles_at n = (0 < n \<and> 100000 dvd n mod 2 ^ 32)"
proof (cases n)
  case 0
  then show ?thesis by (simp add: toggles_at_def)
next
  case (Suc k)
  then show ?thesis by (simp add: toggles_at_def led_after_Suc)
qed

lemma led_after_parity:
  "n < 2 ^ 32 \<Longrightarrow> led_is_on (after_ticks n) = odd (n div 100000)"
proof (induction n)
  case 0
  then show ?case by (simp add: after_ticks_0 heartbeat_init_def)
next
  case (Suc n)
  then have IH: "led_is_on (after_ticks n) = odd (n div 100000)" by simp
  from Suc.prems have m: "Suc n mod 2 ^ 32 = Suc n" by simp
  show ?case
  proof (cases "(100000::nat) dvd Suc n")
    case True
    then have "Suc n div 100000 = Suc (n div 100000)"
      by (simp add: div_Suc dvd_eq_mod_eq_0)
    with True show ?thesis unfolding led_after_Suc m IH by simp
  next
    case False
    then have "Suc n div 100000 = n div 100000"
      by (simp add: div_Suc dvd_eq_mod_eq_0)
    with False show ?thesis unfolding led_after_Suc m IH by simp
  qed
qed

text \<open>
  C6 as stated fails when the 32-bit counter wraps: the invocation number \<open>2 ^ 32\<close> is not
  a multiple of 100000, yet the counter is 0 there and the LED toggles, 67296 invocations
  after the toggle at invocation 4294900000; and invocation 4300000000, a multiple of
  100000, does not toggle.
\<close>

theorem heartbeat_wrap_counterexample:
  "toggles_at 4294967296 \<and> \<not> (100000::nat) dvd 4294967296 \<and>
   \<not> toggles_at 4300000000 \<and> (100000::nat) dvd 4300000000"
  by (simp add: toggles_at_iff)

text \<open>
  C6, amended: the \<open>n\<close>-th invocation of the tick handler toggles the LED exactly when the
  32-bit tick counter, \<open>n mod 2 ^ 32\<close>, is a multiple of SYSTICK_FREQ = 100000, and the pin
  always shows the LED state. Before the counter wraps (\<open>n < 2 ^ 32\<close>) that is exactly at
  the invocations that are multiples of 100000, and the LED is on after \<open>n\<close> invocations
  exactly when \<open>n div 100000\<close> is odd: it starts off and the first toggle turns it on.
\<close>

theorem heartbeat_toggles:
  "toggles_at n = (0 < n \<and> 100000 dvd n mod 2 ^ 32) \<and>
   pin (after_ticks n) = led_is_on (after_ticks n) \<and>
   (n < 2 ^ 32 \<longrightarrow>
      toggles_at n = (0 < n \<and> 100000 dvd n) \<and>
      led_is_on (after_ticks n) = odd (n div 100000))"
  by (simp add: toggles_at_iff pin_after led_after_parity)

theorem heartbeat_toggles_witness:
  "(100000::nat) < 2 ^ 32 \<and> toggles_at 100000 \<and> led_is_on (after_ticks 100000)
   \<and> pin (after_ticks 100000) \<and> \<not> toggles_at 99999 \<and> \<not> led_is_on (after_ticks 99999)"
  using heartbeat_toggles [of 100000] heartbeat_toggles [of 99999] by simp

subsection \<open>The boot sequence\<close>

lemma uart_init_status:
  "fst (uart_init drv) =
     (if setup_status drv the_uart_conf < 0 then setup_status drv the_uart_conf
      else if receive_enable_status drv < 0 then receive_enable_status drv else 0)"
  by (simp add: uart_init_def Let_def)

lemma uart_init_ops:
  "snd (uart_init drv) =
     (if setup_status drv the_uart_conf < 0 then [Uart_setup the_uart_conf]
      else [Uart_setup the_uart_conf, Uart_receive_enable])"
  by (simp add: uart_init_def Let_def)

lemma main_link_setup_fails:
  assumes "board_clocking_init hw = Some clk" and "fst (uart_init drv) < 0"
  shows "main hw cal drv api_host m =
           Some (Returned (fst (uart_init drv)),
                 \<lparr>calls = [Board_clocking_init, Board_gpio_init, Systick_init, Uart_init],
                  rcc_log = clk, systick = systick_init cal SYSTICK_PERIOD_US,
                  uart_ops = snd (uart_init drv), ram = m\<rparr>)"
  using assms by (simp add: main_def Let_def)

lemma main_receive_fails:
  assumes "board_clocking_init hw = Some clk" and "0 \<le> fst (uart_init drv)"
    and "receive_code drv m = Some (err, ops, m')" and "err < 0"
  shows "main hw cal drv api_host m =
           Some (Returned err,
                 \<lparr>calls = [Board_clocking_init, Board_gpio_init, Systick_init, Uart_init,
                           Run_tests, Receive_code],
                  rcc_log = clk, systick = systick_init cal SYSTICK_PERIOD_US,
                  uart_ops = snd (uart_init drv) @ ops, ram = m'\<rparr>)"
  using assms by (simp add: main_def Let_def run_tests_def)

lemma main_hands_over:
  assumes "board_clocking_init hw = Some clk" and "0 \<le> fst (uart_init drv)"
    and "receive_code drv m = Some (err, ops, m')" and "0 \<le> err"
  shows "main hw cal drv api_host m =
           Some (Handed_over (handoff api_host m'),
                 \<lparr>calls = [Board_clocking_init, Board_gpio_init, Systick_init, Uart_init,
                           Run_tests, Receive_code, Run_code],
                  rcc_log = clk, systick = systick_init cal SYSTICK_PERIOD_US,
                  uart_ops = snd (uart_init drv) @ ops, ram = mem (handoff api_host m')\<rparr>)"
  using assms by (simp add: main_def Let_def run_tests_def)

text \<open>main produces no result exactly when one of its spin-waits never ends.\<close>

lemma main_None:
  "main hw cal drv api_host m = None \<longleftrightarrow>
     board_clocking_init hw = None \<or> (0 \<le> fst (uart_init drv) \<and> receive_code drv m = None)"
  by (auto simp: main_def Let_def run_tests_def split: option.splits)

lemma receive_code_refused:
  "recv_buffer_status drv recv_buffer_addr USER_MAX_PROG_SIZE < 0 \<Longrightarrow>
   receive_code drv m =
     Some (recv_buffer_status drv recv_buffer_addr USER_MAX_PROG_SIZE,
           [Uart_recv_buffer recv_buffer_addr USER_MAX_PROG_SIZE], m)"
  by (simp add: receive_code_def receive_into_def Let_def)

lemma drv_facts:
  "fst (uart_init drv_setup_fails) = - 1" "fst (uart_init drv_enable_fails) = - 2"
  "fst (uart_init drv_recv_fails) = 0"
  "snd (uart_init drv_setup_fails) = [Uart_setup the_uart_conf]"
  "snd (uart_init drv_enable_fails) = [Uart_setup the_uart_conf, Uart_receive_enable]"
  "snd (uart_init drv_recv_fails) = [Uart_setup the_uart_conf, Uart_receive_enable]"
  "receive_code drv_recv_fails m =
     Some (- 3, [Uart_recv_buffer recv_buffer_addr USER_MAX_PROG_SIZE], m)"
  by (simp_all add: uart_init_def receive_code_def receive_into_def Let_def
      drv_setup_fails_def drv_enable_fails_def drv_recv_fails_def good_drv_def)

text \<open>
  C5: once the clock configuration has returned, a negative status of uart_init (from
  uart_setup or from uart_receive_enable) makes main return that status with uart_init
  the last function called; run_tests never returns a negative status; and a negative
  status of receive_code makes main return that status with receive_code the last
  function called. No function is called twice.
\<close>

theorem negative_status_aborts:
  assumes clk: "board_clocking_init hw = Some clk"
  shows "(fst (uart_init drv) < 0 \<longrightarrow>
            main hw cal drv api_host m =
              Some (Returned (fst (uart_init drv)),
                    \<lparr>calls = [Board_clocking_init, Board_gpio_init, Systick_init, Uart_init],
                     rcc_log = clk, systick = systick_init cal SYSTICK_PERIOD_US,
                     uart_ops = snd (uart_init drv), ram = m\<rparr>)) \<and>
         fst (run_tests drv) = 0 \<and>
         (0 \<le> fst (uart_init drv) \<longrightarrow>
          receive_code drv m = Some (err, ops, m') \<longrightarrow> err < 0 \<longrightarrow>
            main hw cal drv api_host m =
              Some (Returned err,
                    \<lparr>calls = [Board_clocking_init, Board_gpio_init, Systick_init, Uart_init,
                              Run_tests, Receive_code],
                     rcc_log = clk, systick = systick_init cal SYSTICK_PERIOD_US,
                     uart_ops = snd (uart_init drv) @ ops, ram = m'\<rparr>))"
  using main_link_setup_fails [OF clk] main_receive_fails [OF clk]
  by (simp add: run_tests_def)

theorem negative_status_aborts_witness:
  "fst (uart_init drv_setup_fails) < 0 \<and>
   map_option fst (main cold_hw exact_calib drv_setup_fails sample_api zero_mem)
     = Some (Returned (- 1)) \<and>
   fst (uart_init drv_enable_fails) < 0 \<and>
   map_option fst (main cold_hw exact_calib drv_enable_fails sample_api zero_mem)
     = Some (Returned (- 2)) \<and>
   0 \<le> fst (uart_init drv_recv_fails) \<and>
   map_option fst (main cold_hw exact_calib drv_recv_fails sample_api zero_mem)
     = Some (Returned (- 3))"
  using negative_status_aborts [OF cold_hw_trace, where drv = drv_setup_fails
      and cal = exact_calib and api_host = sample_api and m = zero_mem]
    negative_status_aborts [OF cold_hw_trace, where drv = drv_enable_fails
      and cal = exact_calib and api_host = sample_api and m = zero_mem]
    negative_status_aborts [OF cold_hw_trace, where drv = drv_recv_fails
      and cal = exact_calib and api_host = sample_api and m = zero_mem and err = "- 3"
      and ops = "[Uart_recv_buffer recv_buffer_addr USER_MAX_PROG_SIZE]" and m' = zero_mem]
  by (simp add: drv_facts)

text \<open>
  C7: once the clock configuration has returned, a negative status of uart_setup makes
  main return that status; SysTick and its exception are still enabled, uart_setup is the
  only driver call made, receive_code and run_code were not called, and the working
  memory is as it was.
\<close>

theorem setup_failure_keeps_heartbeat:
  assumes "board_clocking_init hw = Some clk"
    and "setup_status drv the_uart_conf < 0"
  shows "\<exists>b. main hw cal drv api_host m = Some (Returned (setup_status drv the_uart_conf), b) \<and>
             enabled (systick b) \<and> exc_enabled (systick b) \<and>
             uart_ops b = [Uart_setup the_uart_conf] \<and>
             Receive_code \<notin> set (calls b) \<and> Run_code \<notin> set (calls b) \<and>
             ram b = m"
  using assms
  by (simp add: main_link_setup_fails uart_init_status uart_init_ops systick_init_def)

theorem setup_failure_keeps_heartbeat_witness:
  "setup_status drv_setup_fails the_uart_conf < 0 \<and>
   (\<exists>b. main cold_hw exact_calib drv_setup_fails sample_api split_image
            = Some (Returned (- 1), b) \<and>
        enabled (systick b) \<and> exc_enabled (systick b) \<and>
        uart_ops b = [Uart_setup the_uart_conf] \<and> ram b = split_image)"
proof -
  have neg: "setup_status drv_setup_fails the_uart_conf < 0"
    by (simp add: drv_setup_fails_def good_drv_def)
  have val: "setup_status drv_setup_fails the_uart_conf = - 1"
    by (simp add: drv_setup_fails_def good_drv_def)
  from setup_failure_keeps_heartbeat [OF cold_hw_trace neg, where cal = exact_calib
      and api_host = sample_api and m = split_image]
  show ?thesis unfolding val using neg val by auto
qed

subsection \<open>Code reception\<close>

lemma receive_into_cases:
  assumes "receive_into drv buf len m = Some (err, ops, m')"
  shows "(err < 0 \<and> err = recv_buffer_status drv buf len \<and> ops = [Uart_recv_buffer buf len]
            \<and> m' = m) \<or>
         (err = 0 \<and> 0 \<le> recv_buffer_status drv buf len \<and>
          (\<exists>k. recv_complete drv k \<and> (\<forall>j<k. \<not> recv_complete drv j) \<and>
               ops = Uart_recv_buffer buf len
                       # polls (\<lambda>n. Is_recv_complete (recv_complete drv n)) k) \<and>
          m' = write_bytes m buf (take (unat len) (wire drv)))"
proof (cases "recv_buffer_status drv buf len < 0")
  case True
  with assms show ?thesis by (auto simp: receive_into_def Let_def)
next
  case False
  with assms obtain k where
    k: "spin_while (\<lambda>n. recv_complete drv n = False) 0 = Some k" and
    r: "err = 0" "ops = Uart_recv_buffer buf len
                       # polls (\<lambda>n. Is_recv_complete (recv_complete drv n)) k"
       "m' = write_bytes m buf (take (unat len) (wire drv))"
    by (auto simp: receive_into_def Let_def split: option.splits)
  from spin_while_exit [OF k] spin_while_before [OF k]
  have "recv_complete drv k" "\<forall>j<k. \<not> recv_complete drv j" by auto
  with r False show ?thesis by auto
qed

text \<open>A reception that becomes complete at some poll makes the loader return.\<close>

lemma receive_into_returns:
  assumes "recv_complete drv k"
  shows "\<exists>r. receive_into drv buf len m = Some r"
proof -
  from assms spin_while_stops [of "\<lambda>n. recv_complete drv n = False" 0 k]
  obtain k' where "spin_while (\<lambda>n. recv_complete drv n = False) 0 = Some k'" by auto
  then show ?thesis
    by (simp add: receive_into_def Let_def)
qed

lemma good_drv_polls:
  "spin_while (\<lambda>n. \<not> recv_complete good_drv n) 0 = Some 2"
  by (simp add: good_drv_def spin_while_first spin_while_next)

lemma good_drv_receive_into:
  "receive_into good_drv buf len m =
     Some (0, [Uart_recv_buffer buf len, Is_recv_complete False, Is_recv_complete False,
               Is_recv_complete True],
           write_bytes m buf (take (unat len) [0x11, 0x22, 0x33]))"
proof -
  have "polls (\<lambda>n. Is_recv_complete (recv_complete good_drv n)) 2 =
          [Is_recv_complete False, Is_recv_complete False, Is_recv_complete True]"
    by (simp add: polls_def good_drv_def upt_rec)
  moreover have "recv_buffer_status good_drv buf len = 0" "wire good_drv = [0x11, 0x22, 0x33]"
    by (simp_all add: good_drv_def)
  ultimately show ?thesis
    by (simp add: receive_into_def good_drv_polls)
qed

lemma good_drv_receive_code:
  "receive_code good_drv m =
     Some (0, [Uart_recv_buffer recv_buffer_addr USER_MAX_PROG_SIZE, Is_recv_complete False,
               Is_recv_complete False, Is_recv_complete True],
           write_bytes m 0x20000400 [0x11, 0x22, 0x33])"
  by (simp add: receive_code_def good_drv_receive_into layout_addresses)

text \<open>
  C10: every execution of receive_code that returns has made exactly one uart_recv_buffer
  call, its first driver call, for SRAM_SIZE - USER_OFFS bytes at the base of the loadable
  region. It returns 0 only after polling is_recv_complete until a poll was true (every
  earlier poll was false); any other status is the negative status of uart_recv_buffer,
  returned without polling.
\<close>

theorem receive_code_requests_maximum:
  assumes "receive_code drv m = Some (err, ops, m')"
  shows "hd ops = Uart_recv_buffer USER_START (SRAM_SIZE - USER_OFFS) \<and>
         length (filter is_recv_buffer ops) = 1 \<and>
         (err = 0 \<longrightarrow>
            (\<exists>k. recv_complete drv k \<and> (\<forall>j<k. \<not> recv_complete drv j) \<and>
                 tl ops = polls (\<lambda>n. Is_recv_complete (recv_complete drv n)) k)) \<and>
         (err \<noteq> 0 \<longrightarrow>
            err < 0 \<and> err = recv_buffer_status drv USER_START (SRAM_SIZE - USER_OFFS) \<and>
            tl ops = [])"
proof -
  have eq: "recv_buffer_addr = USER_START" "USER_MAX_PROG_SIZE = SRAM_SIZE - USER_OFFS"
    by (simp_all add: recv_buffer_addr_def USER_START_def ptr_add_def USER_MAX_PROG_SIZE_def)
  have np: "filter is_recv_buffer (polls (\<lambda>n. Is_recv_complete (recv_complete drv n)) k) = []"
    for k
    by (simp add: polls_def filter_empty_conv del: upt_Suc)
  from assms have "receive_into drv USER_START (SRAM_SIZE - USER_OFFS) m = Some (err, ops, m')"
    by (simp add: receive_code_def eq)
  from receive_into_cases [OF this] show ?thesis
    by (auto simp: np)
qed

theorem receive_code_requests_maximum_witness:
  "receive_code good_drv zero_mem =
     Some (0, [Uart_recv_buffer recv_buffer_addr USER_MAX_PROG_SIZE, Is_recv_complete False,
               Is_recv_complete False, Is_recv_complete True],
           write_bytes zero_mem 0x20000400 [0x11, 0x22, 0x33]) \<and>
   Uart_recv_buffer recv_buffer_addr USER_MAX_PROG_SIZE = Uart_recv_buffer 0x20000400 0x1C00 \<and>
   (\<exists>k. recv_complete good_drv k \<and> (\<forall>j<k. \<not> recv_complete good_drv j) \<and>
        [Is_recv_complete False, Is_recv_complete False, Is_recv_complete True]
          = polls (\<lambda>n. Is_recv_complete (recv_complete good_drv n)) k)"
  using receive_code_requests_maximum [OF good_drv_receive_code [of zero_mem]]
  by (simp add: good_drv_receive_code layout_addresses SRAM_SIZE_def USER_OFFS_def)

text \<open>
  receive_code takes no size: every uart_recv_buffer call it makes is for exactly
  USER_MAX_PROG_SIZE bytes at the base of the loadable region, so no run requests more
  than the maximum loadable size. When uart_recv_buffer returns a negative status,
  receive_code returns that status without polling and the memory is unchanged.
\<close>

lemma receive_code_request_size:
  assumes "receive_code drv m = Some (err, ops, m')"
  shows "\<forall>b l. Uart_recv_buffer b l \<in> set ops \<longrightarrow> b = USER_START \<and> l = USER_MAX_PROG_SIZE"
proof -
  from assms have "receive_into drv recv_buffer_addr USER_MAX_PROG_SIZE m = Some (err, ops, m')"
    by (simp add: receive_code_def)
  from receive_into_cases [OF this] show ?thesis
    by (auto simp: polls_def layout_addresses simp del: upt_Suc)
qed

lemma receive_code_refused_unchanged:
  "receive_code drv_recv_fails split_image =
     Some (- 3, [Uart_recv_buffer recv_buffer_addr USER_MAX_PROG_SIZE], split_image)"
proof -
  have "recv_buffer_status drv_recv_fails recv_buffer_addr USER_MAX_PROG_SIZE = - 3"
    by (simp add: drv_recv_fails_def good_drv_def)
  with receive_code_refused [of drv_recv_fails split_image] show ?thesis by simp
qed

subsection \<open>Serial operations of the whole boot\<close>

lemma main_uart_ops:
  assumes "main hw cal drv api_host m = Some (e, b)"
  shows "uart_ops b = snd (uart_init drv) \<or>
         (\<exists>err ops m'. receive_code drv m = Some (err, ops, m') \<and>
                        uart_ops b = snd (uart_init drv) @ ops)"
  using assms
  by (auto simp: main_def Let_def run_tests_def split: option.splits if_splits)

lemma boot_op_polls:
  "\<forall>op \<in> set (polls (\<lambda>n. Is_recv_complete (f n)) k).
     boot_op op \<and> \<not> is_transmit op \<and> \<not> is_recv_buffer op"
  by (auto simp: polls_def simp del: upt_Suc)

lemma receive_code_ops:
  assumes "receive_code drv m = Some (err, ops, m')"
  shows "(\<forall>op \<in> set ops. boot_op op \<and> \<not> is_transmit op) \<and>
         length (filter is_recv_buffer ops) = 1"
proof -
  from assms have "receive_into drv recv_buffer_addr USER_MAX_PROG_SIZE m = Some (err, ops, m')"
    by (simp add: receive_code_def)
  from receive_into_cases [OF this] boot_op_polls [of "recv_complete drv"]
  show ?thesis by (auto simp: filter_empty_conv)
qed

lemma good_boot:
  "main cold_hw exact_calib good_drv sample_api zero_mem =
     Some (Handed_over (handoff sample_api (write_bytes zero_mem 0x20000400 [0x11, 0x22, 0x33])),
           \<lparr>calls = [Board_clocking_init, Board_gpio_init, Systick_init, Uart_init,
                     Run_tests, Receive_code, Run_code],
            rcc_log = [Set_HSEON, Check_HSERDY False,
                       Set_PREDIV 2, Set_PLLSRC_HSE_PREDIV, Set_PLLMUL 12,
                       Set_PLLON, Check_PLLRDY False,
                       Set_HPRE_NOT_DIV, Set_SW_PLL, Get_SWS PLL, Set_PPRE_NOT_DIV],
            systick = systick_init exact_calib SYSTICK_PERIOD_US,
            uart_ops = [Uart_setup the_uart_conf, Uart_receive_enable,
                        Uart_recv_buffer recv_buffer_addr USER_MAX_PROG_SIZE,
                        Is_recv_complete False, Is_recv_complete False, Is_recv_complete True],
            ram = mem (handoff sample_api
                        (write_bytes zero_mem 0x20000400 [0x11, 0x22, 0x33]))\<rparr>)"
proof -
  have "fst (uart_init good_drv) = 0"
    "snd (uart_init good_drv) = [Uart_setup the_uart_conf, Uart_receive_enable]"
    by (simp_all add: uart_init_def good_drv_def)
  then show ?thesis
    using main_hands_over [OF cold_hw_trace _ good_drv_receive_code [of zero_mem],
        where cal = exact_calib and api_host = sample_api]
    by simp
qed

text \<open>
  C9: in every run of main that ends (with a status or with the handoff), each driver call
  made is uart_setup with the fixed configuration, uart_receive_enable, uart_recv_buffer
  for the loadable region, or a poll of is_recv_complete; none is a transmit enable or
  disable, a send or a poll of the send completion; at most one uart_recv_buffer call is
  made; and run_tests makes no driver call and returns 0.
\<close>

theorem boot_never_transmits:
  assumes "main hw cal drv api_host m = Some (e, b)"
  shows "(\<forall>op \<in> set (uart_ops b). boot_op op \<and> \<not> is_transmit op) \<and>
         length (filter is_recv_buffer (uart_ops b)) \<le> 1 \<and>
         run_tests drv = (0, [])"
proof -
  have i: "\<forall>op \<in> set (snd (uart_init drv)).
             boot_op op \<and> \<not> is_transmit op \<and> \<not> is_recv_buffer op"
    by (simp add: uart_init_ops)
  from main_uart_ops [OF assms] show ?thesis
  proof
    assume "uart_ops b = snd (uart_init drv)"
    with i show ?thesis by (simp add: run_tests_def filter_empty_conv)
  next
    assume "\<exists>err ops m'. receive_code drv m = Some (err, ops, m') \<and>
                        uart_ops b = snd (uart_init drv) @ ops"
    then obtain err ops m' where r: "receive_code drv m = Some (err, ops, m')"
      and u: "uart_ops b = snd (uart_init drv) @ ops" by blast
    from i have "filter is_recv_buffer (snd (uart_init drv)) = []"
      by (simp add: filter_empty_conv)
    with receive_code_ops [OF r] i u show ?thesis
      by (auto simp: run_tests_def)
  qed
qed

theorem boot_never_transmits_witness:
  "(\<exists>h b. main cold_hw exact_calib good_drv sample_api zero_mem = Some (Handed_over h, b) \<and>
      uart_ops b = [Uart_setup the_uart_conf, Uart_receive_enable,
                    Uart_recv_buffer recv_buffer_addr USER_MAX_PROG_SIZE,
                    Is_recv_complete False, Is_recv_complete False, Is_recv_complete True] \<and>
      list_all (\<lambda>op. boot_op op \<and> \<not> is_transmit op) (uart_ops b) \<and>
      length (filter is_recv_buffer (uart_ops b)) \<le> 1)"
  using boot_never_transmits [OF good_boot]
  by (simp add: good_boot list_all_iff)

end
